theory Spec2Isabelle
  imports Complex_Main
begin

section \<open>The recipe cost calculator (frd\_calculator.py)\<close>

text \<open>
  The program reads a recipe, reads the bulk purchase cost of every ingredient, computes
  the price of the amount of each ingredient the recipe uses, and prints the prices and
  their total. This theory embeds the computing part of the program:
  \<^verbatim>\<open>convert_mass_to_volume\<close>, \<open>check_special_cases\<close>, \<open>calculate_recipe_prices\<close> and
  \<open>print_recipe_costs\<close>.

  Conventions of the embedding:
  \<^item> Python floats are read as real numbers: rounding, infinities and NaN are outside
    the model; every arithmetic identity below is one of exact arithmetic. In
    particular a positive quantity never converts to zero here, as it can in floats
    by underflow, so nothing below says when a divisor is positive.
  \<^item> Python strings are \<open>char list\<close>s of ASCII characters.
  \<^item> An exception is a value \<open>Inl e\<close> of a sum type; a function that mutates its
    argument returns the new value.
  \<^item> The units library \<open>pint\<close> is not part of the program. Its unit registry is a
    parameter \<open>ureg\<close> of every function that builds one
    (\<^verbatim>\<open>ureg = pint.UnitRegistry()\<close>): a table from unit names to a dimensionality and
    a factor to the reference unit of that dimensionality. Only multiplicative units
    are covered, which is what a recipe uses.
  \<^item> What the program prints is a list of lines; a line keeps the values that are
    formatted into it, not the formatted text.
\<close>

subsection \<open>Exceptions\<close>

datatype error =
    DimensionalityError   \<comment> \<open>pint: conversion between units of different dimensionality\<close>
  | UndefinedUnitError    \<comment> \<open>pint: the name is not in the registry\<close>
  | ZeroDivisionError     \<comment> \<open>Python: float division by zero\<close>
  | AttributeError        \<comment> \<open>Python: attribute of \<open>None\<close>\<close>

subsection \<open>The classes Cost, Ingredient and Recipe\<close>

record cost =
  money :: real
  quantity :: real
  measure :: string

record ingredient =
  quantity :: real
  measure :: string
  thing :: string
  cost :: "cost option"     \<comment> \<open>the cost for the large unit of this\<close>
  price :: "real option"    \<comment> \<open>the price for just this much\<close>

record recipe =
  name :: string
  ingredients :: "ingredient list"

text \<open>The constructor \<^verbatim>\<open>Ingredient(quantity, measure, thing)\<close>: no cost, no price.\<close>

definition Ingredient :: "real \<Rightarrow> string \<Rightarrow> string \<Rightarrow> ingredient" where
  "Ingredient q m t =
     \<lparr>ingredient.quantity = q, measure = m, thing = t, cost = None, price = None\<rparr>"

definition Cost :: "real \<Rightarrow> real \<Rightarrow> string \<Rightarrow> cost" where
  "Cost mo q m = \<lparr>money = mo, quantity = q, measure = m\<rparr>"

subsection \<open>The part of pint the program uses\<close>

datatype dimension = Mass | Volume | Length | Time | Dimensionless

record unit_def =
  dimensionality :: dimension
  factor :: real

type_synonym registry = "(string \<times> unit_def) list"

text \<open>A pint \<open>Quantity\<close>: a magnitude and a unit.\<close>

record pquantity =
  magnitude :: real
  units :: unit_def

text \<open>\<^verbatim>\<open>ureg.lbs\<close>: the unit of that name, or \<open>UndefinedUnitError\<close>.\<close>

definition ureg_getattr :: "registry \<Rightarrow> string \<Rightarrow> error + unit_def" where
  "ureg_getattr ureg s =
     (case map_of ureg s of None \<Rightarrow> Inl UndefinedUnitError | Some u \<Rightarrow> Inr u)"

text \<open>\<^verbatim>\<open>ureg[s]\<close> for a unit name \<open>s\<close>: the quantity of magnitude 1 in that unit.\<close>

definition ureg_getitem :: "registry \<Rightarrow> string \<Rightarrow> error + pquantity" where
  "ureg_getitem ureg s =
     (case ureg_getattr ureg s of
        Inl e \<Rightarrow> Inl e
      | Inr u \<Rightarrow> Inr \<lparr>magnitude = 1, units = u\<rparr>)"

text \<open>\<^verbatim>\<open>x * q\<close> for a number \<open>x\<close> and a quantity \<open>q\<close>.\<close>

definition qmul :: "real \<Rightarrow> pquantity \<Rightarrow> pquantity" where
  "qmul x q = q\<lparr>magnitude := x * magnitude q\<rparr>"

text \<open>
  \<^verbatim>\<open>q.to(s)\<close>: the same quantity in the unit named \<open>s\<close>;
  \<open>DimensionalityError\<close> when the two units differ in dimensionality.
\<close>

definition quantity_to :: "registry \<Rightarrow> pquantity \<Rightarrow> string \<Rightarrow> error + pquantity" where
  "quantity_to ureg q s =
     (case ureg_getattr ureg s of
        Inl e \<Rightarrow> Inl e
      | Inr u \<Rightarrow>
          if dimensionality (units q) \<noteq> dimensionality u then Inl DimensionalityError
          else Inr \<lparr>magnitude = magnitude q * factor (units q) / factor u, units = u\<rparr>)"

text \<open>
  A registry with some of the units of pint's default table, for evaluating the
  program on concrete inputs. Masses are in grams, volumes in litres, lengths in
  metres.
\<close>

definition pound :: unit_def where
  "pound = \<lparr>dimensionality = Mass, factor = 453.59237\<rparr>"

definition cup :: unit_def where
  "cup = \<lparr>dimensionality = Volume, factor = 0.2365882365\<rparr>"

definition default_ureg :: registry where
  "default_ureg =
    [(''pounds'', pound), (''pound'', pound), (''lbs'', pound), (''lb'', pound),
     (''ounces'', \<lparr>dimensionality = Mass, factor = 28.349523125\<rparr>),
     (''grams'', \<lparr>dimensionality = Mass, factor = 1\<rparr>),
     (''kilograms'', \<lparr>dimensionality = Mass, factor = 1000\<rparr>),
     (''cups'', cup), (''cup'', cup),
     (''tablespoons'', \<lparr>dimensionality = Volume, factor = 0.2365882365 / 16\<rparr>),
     (''teaspoons'', \<lparr>dimensionality = Volume, factor = 0.2365882365 / 48\<rparr>),
     (''liters'', \<lparr>dimensionality = Volume, factor = 1\<rparr>),
     (''meter'', \<lparr>dimensionality = Length, factor = 1\<rparr>)]"

subsection \<open>The string operations the program uses\<close>

text \<open>\<^verbatim>\<open>str.lower\<close> on ASCII: the letters A to Z (codes 65 to 90) move up by 32.\<close>

definition lower_char :: "char \<Rightarrow> char" where
  "lower_char c =
     (let n = (of_char c :: nat) in if 65 \<le> n \<and> n \<le> 90 then char_of (n + 32) else c)"

definition lower :: "string \<Rightarrow> string" where
  "lower s = map lower_char s"

text \<open>
  \<^verbatim>\<open>str.strip\<close> on ASCII: the whitespace characters are tab, line feed, vertical tab,
  form feed, carriage return (9 to 13), the four separators 28 to 31, and space (32).
\<close>

definition isspace :: "char \<Rightarrow> bool" where
  "isspace c = (let n = (of_char c :: nat) in (9 \<le> n \<and> n \<le> 13) \<or> (28 \<le> n \<and> n \<le> 32))"

definition strip :: "string \<Rightarrow> string" where
  "strip s = rev (dropWhile isspace (rev (dropWhile isspace s)))"

text \<open>\<^verbatim>\<open>sub in s\<close>: \<open>sub\<close> occurs in \<open>s\<close> as a contiguous substring.\<close>

fun startswith :: "string \<Rightarrow> string \<Rightarrow> bool" where
  "startswith s [] = True"
| "startswith [] (p # ps) = False"
| "startswith (c # cs) (p # ps) = (c = p \<and> startswith cs ps)"

fun str_in :: "string \<Rightarrow> string \<Rightarrow> bool" where
  "str_in sub [] = (sub = [])"
| "str_in sub (c # cs) = (startswith (c # cs) sub \<or> str_in sub cs)"

subsection \<open>convert\_mass\_to\_volume\<close>

text \<open>
  The cost is changed in place: its quantity becomes the quantity in pounds times the
  rate (in cups per pound), its measure becomes \<open>cups\<close>.
\<close>

definition convert_mass_to_volume :: "registry \<Rightarrow> cost \<Rightarrow> real \<Rightarrow> error + cost" where
  "convert_mass_to_volume ureg c rate =
     (case ureg_getitem ureg (cost.measure c) of
        Inl e \<Rightarrow> Inl e
      | Inr u \<Rightarrow>
          let orig = qmul (cost.quantity c) u in
          (case quantity_to ureg orig ''pounds'' of
             Inl e \<Rightarrow> Inl e
           | Inr orig_in_lbs \<Rightarrow>
               let qty_in_pounds = magnitude orig_in_lbs;
                   cups = qty_in_pounds * rate
               in Inr (c\<lparr>cost.quantity := cups, cost.measure := ''cups''\<rparr>)))"

subsection \<open>check\_special\_cases\<close>

text \<open>
  The chain of \<^verbatim>\<open>if\<close>/\<^verbatim>\<open>elif\<close> that chooses the conversion rate from the name of
  the ingredient (lines 129 to 140 of the source), with its default first.
\<close>

definition conversion_rate :: "string \<Rightarrow> real" where
  "conversion_rate thing_name =
     (let comparison_name = strip (lower thing_name) in
      if str_in ''flour'' comparison_name then 3.33
      else if ''butter'' = comparison_name then 2.0
      else if str_in ''brown sugar'' comparison_name then 2.25
      else if str_in ''sugar'' comparison_name then 2.0
      else if str_in ''cocoa'' comparison_name then 3.55
      else 2.0)"

text \<open>
  The condition is evaluated left to right and \<^verbatim>\<open>and\<close> cuts short: the measure of the
  ingredient is looked up only when the measure of the cost is a mass.
\<close>

definition check_special_cases :: "registry \<Rightarrow> ingredient \<Rightarrow> error + ingredient" where
  "check_special_cases ureg item =
     (case cost item of
        None \<Rightarrow> Inl AttributeError
      | Some c \<Rightarrow>
     (case ureg_getitem ureg (cost.measure c) of
        Inl e \<Rightarrow> Inl e
      | Inr qc \<Rightarrow>
     (case ureg_getattr ureg ''lbs'' of
        Inl e \<Rightarrow> Inl e
      | Inr lbs \<Rightarrow>
          if dimensionality (units qc) \<noteq> dimensionality lbs then Inr item
          else
     (case ureg_getitem ureg (measure item) of
        Inl e \<Rightarrow> Inl e
      | Inr qi \<Rightarrow>
          if dimensionality (units qi) = dimensionality lbs then Inr item
          else
     (case convert_mass_to_volume ureg c (conversion_rate (thing item)) of
        Inl e \<Rightarrow> Inl e
      | Inr c' \<Rightarrow> Inr (item\<lparr>cost := Some c'\<rparr>))))))"

subsection \<open>calculate\_recipe\_prices\<close>

datatype line =
    DimensionalityErrorLine string string
      \<comment> \<open>\<^verbatim>\<open>print(dm)\<close>: the measures the conversion was from and to\<close>
  | CostsForRecipeLine string        \<comment> \<open>\<^verbatim>\<open>Costs for recipe {name}:\<close>\<close>
  | PriceLine string real            \<comment> \<open>\<^verbatim>\<open>{thing}: ${price:.2f}\<close>\<close>
  | NoPriceLine string               \<comment> \<open>\<^verbatim>\<open>Don't have price for {thing}\<close>\<close>
  | TotalLine real                   \<comment> \<open>\<^verbatim>\<open>Total: ${total:.2f}\<close>\<close>

text \<open>
  One round of the loop: the ingredient after it and the lines it printed, or the
  exception that leaves the loop. Only \<open>DimensionalityError\<close> raised by the
  conversion of the bulk is caught.
\<close>

definition calculate_item :: "registry \<Rightarrow> ingredient \<Rightarrow> error + (ingredient \<times> line list)" where
  "calculate_item ureg item0 =
     (case check_special_cases ureg item0 of
        Inl e \<Rightarrow> Inl e
      | Inr item \<Rightarrow>
     (case cost item of
        None \<Rightarrow> Inl AttributeError
      | Some c \<Rightarrow>
     (case ureg_getitem ureg (cost.measure c) of
        Inl e \<Rightarrow> Inl e
      | Inr u \<Rightarrow>
          let bulk = qmul (cost.quantity c) u in
          (case quantity_to ureg bulk (measure item) of
             Inl e \<Rightarrow>
               if e = DimensionalityError
               then Inr (item, [DimensionalityErrorLine (cost.measure c) (measure item)])
               else Inl e
           | Inr smaller \<Rightarrow>
               if magnitude smaller = 0 then Inl ZeroDivisionError
               else
                 let used_fraction = ingredient.quantity item / magnitude smaller
                 in Inr (item\<lparr>price := Some (used_fraction * money c)\<rparr>, [])))))"

fun calculate_loop :: "registry \<Rightarrow> ingredient list \<Rightarrow> error + (ingredient list \<times> line list)" where
  "calculate_loop ureg [] = Inr ([], [])"
| "calculate_loop ureg (item # rest) =
     (case calculate_item ureg item of
        Inl e \<Rightarrow> Inl e
      | Inr (item', out) \<Rightarrow>
          (case calculate_loop ureg rest of
             Inl e \<Rightarrow> Inl e
           | Inr (rest', out') \<Rightarrow> Inr (item' # rest', out @ out')))"

definition calculate_recipe_prices :: "registry \<Rightarrow> recipe \<Rightarrow> error + (recipe \<times> line list)" where
  "calculate_recipe_prices ureg r =
     (case calculate_loop ureg (ingredients r) of
        Inl e \<Rightarrow> Inl e
      | Inr (items, out) \<Rightarrow> Inr (r\<lparr>ingredients := items\<rparr>, out))"

subsection \<open>print\_recipe\_costs\<close>

text \<open>
  \<^verbatim>\<open>if ingredient.price:\<close> tests the truth value of the price: \<open>None\<close> is false, and
  so is the number zero.
\<close>

definition truthy :: "real option \<Rightarrow> bool" where
  "truthy p = (case p of None \<Rightarrow> False | Some x \<Rightarrow> x \<noteq> 0)"

text \<open>The loop, from the total so far: the lines printed and the total after it.\<close>

fun print_loop :: "ingredient list \<Rightarrow> real \<Rightarrow> line list \<times> real" where
  "print_loop [] total' = ([], total')"
| "print_loop (i # rest) total' =
     (if truthy (price i)
      then (let (ls, t) = print_loop rest (total' + the (price i))
            in (PriceLine (thing i) (the (price i)) # ls, t))
      else (let (ls, t) = print_loop rest total'
            in (NoPriceLine (thing i) # ls, t)))"

definition print_recipe_costs :: "recipe \<Rightarrow> line list" where
  "print_recipe_costs r =
     (let (ls, total') = print_loop (ingredients r) 0
      in CostsForRecipeLine (name r) # ls @ [TotalLine total'])"

subsection \<open>What the proofs use of pint's registry\<close>

text \<open>
  The proofs hold for every registry in which \<open>lbs\<close> and \<open>pounds\<close> are units of
  mass, \<open>cups\<close> is a unit of volume, and every factor is positive, as in pint's
  default registry.
\<close>

definition dimension_of :: "registry \<Rightarrow> string \<Rightarrow> dimension option" where
  "dimension_of ureg s = map_option dimensionality (map_of ureg s)"

definition pint_registry :: "registry \<Rightarrow> bool" where
  "pint_registry ureg =
     (dimension_of ureg ''lbs'' = Some Mass \<and>
      dimension_of ureg ''pounds'' = Some Mass \<and>
      dimension_of ureg ''cups'' = Some Volume \<and>
      list_all (\<lambda>(n, u). 0 < factor u) ureg)"

text \<open>
  The conversion the program writes as \<^verbatim>\<open>(q * ureg[from_unit]).to(to_unit).magnitude\<close>
  (lines 110 to 112 and 151 to 153 of the source).
\<close>

definition convert :: "registry \<Rightarrow> real \<Rightarrow> string \<Rightarrow> string \<Rightarrow> error + real" where
  "convert ureg q from_unit to_unit =
     (case ureg_getitem ureg from_unit of
        Inl e \<Rightarrow> Inl e
      | Inr u \<Rightarrow>
          (case quantity_to ureg (qmul q u) to_unit of
             Inl e \<Rightarrow> Inl e
           | Inr r \<Rightarrow> Inr (magnitude r)))"

subsection \<open>Example inputs\<close>

text \<open>Three cups of flour, bought as five pounds for 2.19 dollars.\<close>

definition flour_item :: ingredient where
  "flour_item = (Ingredient 3 ''cups'' ''flour'')\<lparr>cost := Some (Cost 2.19 5 ''pounds'')\<rparr>"

text \<open>Two metres of licorice, bought by the pound: a mass is bought, a length is used.\<close>

definition licorice_item :: ingredient where
  "licorice_item =
     (Ingredient 2 ''meter'' ''licorice'')\<lparr>cost := Some (Cost 3 1 ''pounds'')\<rparr>"

text \<open>A handful of raisins, bought by the litre: the measure used is not in the table.\<close>

definition raisins_item :: ingredient where
  "raisins_item =
     (Ingredient 1 ''handful'' ''raisins'')\<lparr>cost := Some (Cost 4 1 ''liters'')\<rparr>"

text \<open>A pound of butter, bought as two pounds: a mass is bought, a mass is used.\<close>

definition butter_item :: ingredient where
  "butter_item = (Ingredient 1 ''pounds'' ''butter'')\<lparr>cost := Some (Cost 4 2 ''pounds'')\<rparr>"

text \<open>A pound of flour, bought as five pounds for 2.19 dollars.\<close>

definition flour_by_weight :: ingredient where
  "flour_by_weight =
     (Ingredient 1 ''pounds'' ''flour'')\<lparr>cost := Some (Cost 2.19 5 ''pounds'')\<rparr>"

text \<open>A cup of water that costs nothing.\<close>

definition water_item :: ingredient where
  "water_item = (Ingredient 1 ''cups'' ''water'')\<lparr>cost := Some (Cost 0 1 ''cups'')\<rparr>"

text \<open>A pound of salt whose cost was entered with the quantity zero.\<close>

definition empty_bag :: ingredient where
  "empty_bag = (Ingredient 1 ''pounds'' ''salt'')\<lparr>cost := Some (Cost 1 0 ''pounds'')\<rparr>"

text \<open>An ingredient that already has a price.\<close>

definition priced :: "string \<Rightarrow> real \<Rightarrow> ingredient" where
  "priced t p = (Ingredient 1 ''cups'' t)\<lparr>price := Some p\<rparr>"

section \<open>Properties\<close>

subsection \<open>The registry and the conversion\<close>

lemma default_ureg_pint: "pint_registry default_ureg"
  by (simp add: pint_registry_def dimension_of_def default_ureg_def pound_def cup_def)

lemma registry_factor_pos:
  assumes "pint_registry ureg" and "map_of ureg s = Some u"
  shows "0 < factor u"
proof -
  from assms(2) have "(s, u) \<in> set ureg" by (rule map_of_SomeD)
  moreover from assms(1) have "\<forall>x\<in>set ureg. case x of (n, u) \<Rightarrow> 0 < factor u"
    by (simp add: pint_registry_def list_all_iff)
  ultimately show ?thesis by blast
qed

lemma registry_lbs:
  assumes "pint_registry ureg"
  obtains l where "map_of ureg ''lbs'' = Some l" and "dimensionality l = Mass"
  using assms by (auto simp: pint_registry_def dimension_of_def)

lemma registry_pounds:
  assumes "pint_registry ureg"
  obtains p where "map_of ureg ''pounds'' = Some p" and "dimensionality p = Mass"
  using assms by (auto simp: pint_registry_def dimension_of_def)

lemma registry_cups:
  assumes "pint_registry ureg"
  obtains k where "map_of ureg ''cups'' = Some k" and "dimensionality k = Volume"
  using assms by (auto simp: pint_registry_def dimension_of_def)

lemma ureg_getitem_error:
  assumes "ureg_getitem ureg s = Inl e"
  shows "e \<noteq> DimensionalityError"
  using assms
  by (auto simp: ureg_getitem_def ureg_getattr_def split: option.splits)

lemma convert_known:
  assumes "map_of ureg a = Some ua" and "map_of ureg b = Some ub"
  shows "convert ureg q a b =
     (if dimensionality ua \<noteq> dimensionality ub then Inl DimensionalityError
      else Inr (q * factor ua / factor ub))"
  using assms
  by (simp add: convert_def ureg_getitem_def ureg_getattr_def quantity_to_def qmul_def)

lemma convert_mass_to_volume_convert:
  "convert_mass_to_volume ureg c rate =
     (case convert ureg (cost.quantity c) (cost.measure c) ''pounds'' of
        Inl e \<Rightarrow> Inl e
      | Inr qty_in_pounds \<Rightarrow>
          Inr (c\<lparr>cost.quantity := qty_in_pounds * rate, cost.measure := ''cups''\<rparr>))"
  by (simp add: convert_mass_to_volume_def convert_def Let_def split: sum.splits)

lemma calculate_item_convert:
  assumes "check_special_cases ureg item0 = Inr item" and "cost item = Some c"
  shows "calculate_item ureg item0 =
     (case convert ureg (cost.quantity c) (cost.measure c) (measure item) of
        Inl e \<Rightarrow>
          if e = DimensionalityError
          then Inr (item, [DimensionalityErrorLine (cost.measure c) (measure item)])
          else Inl e
      | Inr b \<Rightarrow>
          if b = 0 then Inl ZeroDivisionError
          else Inr (item\<lparr>price := Some (ingredient.quantity item / b * money c)\<rparr>, []))"
proof (cases "ureg_getitem ureg (cost.measure c)")
  case (Inl e)
  then have "e \<noteq> DimensionalityError"
    by (rule ureg_getitem_error)
  with Inl assms show ?thesis
    by (simp add: calculate_item_def convert_def)
next
  case (Inr u)
  with assms show ?thesis
    by (simp add: calculate_item_def convert_def Let_def split: sum.splits)
qed

lemma check_special_cases_known:
  assumes "pint_registry ureg" and "cost item = Some c"
    and "map_of ureg (cost.measure c) = Some uc"
  shows "check_special_cases ureg item =
     (if dimensionality uc \<noteq> Mass then Inr item
      else (case map_of ureg (measure item) of
              None \<Rightarrow> Inl UndefinedUnitError
            | Some ui \<Rightarrow>
                if dimensionality ui = Mass then Inr item
                else (case convert_mass_to_volume ureg c (conversion_rate (thing item)) of
                        Inl e \<Rightarrow> Inl e
                      | Inr c' \<Rightarrow> Inr (item\<lparr>cost := Some c'\<rparr>))))"
proof -
  from assms(1) obtain l where "map_of ureg ''lbs'' = Some l" "dimensionality l = Mass"
    by (rule registry_lbs)
  with assms(2,3) show ?thesis
    by (simp add: check_special_cases_def ureg_getitem_def ureg_getattr_def split: option.splits)
qed

lemma convert_mass_to_volume_mass:
  assumes "pint_registry ureg" and "map_of ureg (cost.measure c) = Some uc"
    and "dimensionality uc = Mass"
  shows "\<exists>p. map_of ureg ''pounds'' = Some p \<and>
           convert_mass_to_volume ureg c rate =
             Inr (c\<lparr>cost.quantity := cost.quantity c * factor uc / factor p * rate,
                    cost.measure := ''cups''\<rparr>)"
proof -
  from assms(1) obtain p where p: "map_of ureg ''pounds'' = Some p" "dimensionality p = Mass"
    by (rule registry_pounds)
  have "convert ureg (cost.quantity c) (cost.measure c) ''pounds''
          = Inr (cost.quantity c * factor uc / factor p)"
    using assms(2,3) p by (simp add: convert_known)
  then have "convert_mass_to_volume ureg c rate =
           Inr (c\<lparr>cost.quantity := cost.quantity c * factor uc / factor p * rate,
                  cost.measure := ''cups''\<rparr>)"
    by (simp add: convert_mass_to_volume_convert)
  with p(1) show ?thesis by blast
qed

subsection \<open>The density heuristic rewrites a cost into cups\<close>

text \<open>
  Claim C6. Whenever \<open>convert_mass_to_volume\<close> rewrites a cost whose measure is a unit
  of mass, for any such unit and any conversion rate, the call succeeds and afterwards
  the measure of the cost is \<open>cups\<close>, a unit of volume and not of mass, its quantity
  is the original quantity converted to pounds times the rate, and its money is the same.
\<close>

theorem convert_mass_to_volume_cups:
  assumes "pint_registry ureg" and "map_of ureg (cost.measure c) = Some uc"
    and "dimensionality uc = Mass"
  shows "\<exists>qty_in_pounds c'.
           convert ureg (cost.quantity c) (cost.measure c) ''pounds'' = Inr qty_in_pounds \<and>
           convert_mass_to_volume ureg c rate = Inr c' \<and>
           cost.measure c' = ''cups'' \<and>
           cost.quantity c' = qty_in_pounds * rate \<and>
           money c' = money c \<and>
           dimension_of ureg (cost.measure c') = Some Volume"
proof -
  from assms(1) obtain p where p: "map_of ureg ''pounds'' = Some p" "dimensionality p = Mass"
    by (rule registry_pounds)
  from assms(1) have k: "dimension_of ureg ''cups'' = Some Volume"
    by (simp add: pint_registry_def)
  have q: "convert ureg (cost.quantity c) (cost.measure c) ''pounds''
             = Inr (cost.quantity c * factor uc / factor p)"
    using assms(2,3) p by (simp add: convert_known)
  then have "convert_mass_to_volume ureg c rate =
               Inr (c\<lparr>cost.quantity := cost.quantity c * factor uc / factor p * rate,
                      cost.measure := ''cups''\<rparr>)"
    by (simp add: convert_mass_to_volume_convert)
  with q k show ?thesis by simp
qed

theorem convert_mass_to_volume_cups_witness:
  "pint_registry default_ureg \<and>
   map_of default_ureg (cost.measure (Cost 2.19 8 ''ounces'')) =
     Some \<lparr>dimensionality = Mass, factor = 28.349523125\<rparr> \<and>
   convert default_ureg 8 ''ounces'' ''pounds'' = Inr (1 / 2) \<and>
   convert_mass_to_volume default_ureg (Cost 2.19 8 ''ounces'') 3.33 =
     Inr (Cost 2.19 1.665 ''cups'') \<and>
   dimension_of default_ureg ''cups'' = Some Volume"
proof -
  let ?u = "\<lparr>dimensionality = Mass, factor = 28.349523125\<rparr>"
  have m: "map_of default_ureg (cost.measure (Cost 2.19 8 ''ounces'')) = Some ?u"
    by (simp add: default_ureg_def Cost_def)
  have d: "dimensionality ?u = Mass" by simp
  have q: "convert default_ureg 8 ''ounces'' ''pounds'' = Inr (1 / 2)"
    by (simp add: convert_known [of _ _ ?u _ pound] default_ureg_def pound_def)
  from convert_mass_to_volume_cups [OF default_ureg_pint m d, of "3.33"]
  obtain c' where
    "convert_mass_to_volume default_ureg (Cost 2.19 8 ''ounces'') 3.33 = Inr c'"
    "cost.measure c' = ''cups''" "cost.quantity c' = 1 / 2 * 3.33" "money c' = 2.19"
    "dimension_of default_ureg ''cups'' = Some Volume"
    using q by (auto simp: Cost_def)
  moreover from this have "c' = Cost 2.19 1.665 ''cups''"
    by (simp add: Cost_def)
  ultimately show ?thesis using default_ureg_pint m q by simp
qed

subsection \<open>The density heuristic is idempotent\<close>

text \<open>
  Claim C9. Applying \<open>check_special_cases\<close> to its own result gives that result again:
  after the first application the cost is either untouched, with the same outcome the
  second time, or measured in \<open>cups\<close>, which is not a mass, so the condition is false
  and the cost is not converted again.
\<close>

theorem check_special_cases_idempotent:
  assumes reg: "pint_registry ureg" and once: "check_special_cases ureg item = Inr item'"
  shows "check_special_cases ureg item' = Inr item'"
proof -
  from once obtain c where c: "cost item = Some c"
    by (auto simp: check_special_cases_def split: option.splits)
  from once c obtain uc where uc: "map_of ureg (cost.measure c) = Some uc"
    by (auto simp: check_special_cases_def ureg_getitem_def ureg_getattr_def
             split: option.splits)
  note known = check_special_cases_known [OF reg c uc]
  show ?thesis
  proof (cases "dimensionality uc = Mass")
    case False
    with known once show ?thesis by simp
  next
    case mass: True
    from once known mass obtain ui where ui: "map_of ureg (measure item) = Some ui"
      by (auto split: option.splits)
    show ?thesis
    proof (cases "dimensionality ui = Mass")
      case True
      with known once mass ui show ?thesis by simp
    next
      case False
      from convert_mass_to_volume_mass [OF reg uc mass, of "conversion_rate (thing item)"]
      obtain p :: unit_def where
        cv: "convert_mass_to_volume ureg c (conversion_rate (thing item)) =
               Inr (c\<lparr>cost.quantity :=
                        cost.quantity c * factor uc / factor p * conversion_rate (thing item),
                      cost.measure := ''cups''\<rparr>)"
        by blast
      let ?c' = "c\<lparr>cost.quantity :=
                        cost.quantity c * factor uc / factor p * conversion_rate (thing item),
                      cost.measure := ''cups''\<rparr>"
      from known once mass ui False cv have item': "item' = item\<lparr>cost := Some ?c'\<rparr>"
        by simp
      from reg obtain k where k: "map_of ureg ''cups'' = Some k" "dimensionality k = Volume"
        by (rule registry_cups)
      have "cost item' = Some ?c'" using item' by simp
      moreover have "map_of ureg (cost.measure ?c') = Some k" using k by simp
      ultimately have "check_special_cases ureg item' =
          (if dimensionality k \<noteq> Mass then Inr item' else
             (case map_of ureg (measure item') of
              None \<Rightarrow> Inl UndefinedUnitError
            | Some ui \<Rightarrow>
                if dimensionality ui = Mass then Inr item'
                else (case convert_mass_to_volume ureg ?c' (conversion_rate (thing item')) of
                        Inl e \<Rightarrow> Inl e
                      | Inr c' \<Rightarrow> Inr (item'\<lparr>cost := Some c'\<rparr>))))"
        by (rule check_special_cases_known [OF reg])
      with k show ?thesis by simp
    qed
  qed
qed

theorem check_special_cases_idempotent_witness:
  "pint_registry default_ureg \<and>
   check_special_cases default_ureg flour_item =
     Inr (flour_item\<lparr>cost := Some (Cost 2.19 16.65 ''cups'')\<rparr>) \<and>
   check_special_cases default_ureg (flour_item\<lparr>cost := Some (Cost 2.19 16.65 ''cups'')\<rparr>) =
     Inr (flour_item\<lparr>cost := Some (Cost 2.19 16.65 ''cups'')\<rparr>)"
proof -
  have once: "check_special_cases default_ureg flour_item =
     Inr (flour_item\<lparr>cost := Some (Cost 2.19 16.65 ''cups'')\<rparr>)"
    by code_simp
  from check_special_cases_idempotent [OF default_ureg_pint once] once default_ureg_pint
  show ?thesis by simp
qed

subsection \<open>When the density heuristic is applied\<close>

text \<open>
  Claim C3 says that the heuristic is applied if and only if the cost is a mass and the
  ingredient is used by volume, and that any other pairing of dimensions leaves the cost
  unchanged. The guard of \<open>check_special_cases\<close> asks less of the ingredient: its
  measure must not be a mass. Two metres of licorice bought by the pound are used by
  length, not by volume, and their cost is rewritten into cups all the same.
\<close>

theorem heuristic_not_only_volume_counterexample:
  "dimension_of default_ureg (cost.measure (Cost 3 1 ''pounds'')) = Some Mass \<and>
   dimension_of default_ureg (measure licorice_item) = Some Length \<and>
   cost licorice_item = Some (Cost 3 1 ''pounds'') \<and>
   check_special_cases default_ureg licorice_item =
     Inr (licorice_item\<lparr>cost := Some (Cost 3 2 ''cups'')\<rparr>) \<and>
   Cost 3 2 ''cups'' \<noteq> Cost 3 1 ''pounds''"
  by code_simp

text \<open>
  Claim C3, amended. For an ingredient with a cost whose measure is known to the
  registry: the heuristic is applied, and the cost rewritten into cups, if and only if
  the measure of the cost is a mass and the measure of the ingredient is not a mass.
  When the measure of the cost is not a mass, the measure of the ingredient is not even
  looked up, and when both are masses the ingredient is returned unchanged; a cost that
  is a mass with an ingredient measure that the registry does not know raises
  \<open>UndefinedUnitError\<close>.
\<close>

theorem heuristic_applied_iff:
  assumes reg: "pint_registry ureg" and c: "cost item = Some c"
    and uc: "map_of ureg (cost.measure c) = Some uc"
  shows "(dimensionality uc = Mass \<and>
          (\<exists>ui. map_of ureg (measure item) = Some ui \<and> dimensionality ui \<noteq> Mass) \<longrightarrow>
            (\<exists>c'. convert_mass_to_volume ureg c (conversion_rate (thing item)) = Inr c' \<and>
                  check_special_cases ureg item = Inr (item\<lparr>cost := Some c'\<rparr>) \<and>
                  cost.measure c' = ''cups'' \<and> c' \<noteq> c)) \<and>
         (dimensionality uc \<noteq> Mass \<or>
          (\<exists>ui. map_of ureg (measure item) = Some ui \<and> dimensionality ui = Mass) \<longrightarrow>
            check_special_cases ureg item = Inr item) \<and>
         (dimensionality uc = Mass \<and> map_of ureg (measure item) = None \<longrightarrow>
            check_special_cases ureg item = Inl UndefinedUnitError)"
proof (intro conjI impI)
  assume trig: "dimensionality uc = Mass \<and>
          (\<exists>ui. map_of ureg (measure item) = Some ui \<and> dimensionality ui \<noteq> Mass)"
  then obtain ui where ui: "map_of ureg (measure item) = Some ui" "dimensionality ui \<noteq> Mass"
    by blast
  from trig have mass: "dimensionality uc = Mass" by simp
  from convert_mass_to_volume_mass [OF reg uc mass, of "conversion_rate (thing item)"]
  obtain p :: unit_def where
    cv: "convert_mass_to_volume ureg c (conversion_rate (thing item)) =
           Inr (c\<lparr>cost.quantity :=
                    cost.quantity c * factor uc / factor p * conversion_rate (thing item),
                  cost.measure := ''cups''\<rparr>)"
    by blast
  let ?c' = "c\<lparr>cost.quantity :=
                    cost.quantity c * factor uc / factor p * conversion_rate (thing item),
               cost.measure := ''cups''\<rparr>"
  from reg obtain k where k: "map_of ureg ''cups'' = Some k" "dimensionality k = Volume"
    by (rule registry_cups)
  have "cost.measure c \<noteq> ''cups''"
    using uc k mass by auto
  then have "?c' \<noteq> c"
    by (metis cost.select_convs(3) cost.surjective cost.update_convs(3))
  moreover have "check_special_cases ureg item = Inr (item\<lparr>cost := Some ?c'\<rparr>)"
    using check_special_cases_known [OF reg c uc] ui mass cv by simp
  ultimately show "\<exists>c'. convert_mass_to_volume ureg c (conversion_rate (thing item)) = Inr c' \<and>
                  check_special_cases ureg item = Inr (item\<lparr>cost := Some c'\<rparr>) \<and>
                  cost.measure c' = ''cups'' \<and> c' \<noteq> c"
    using cv by simp
next
  assume "dimensionality uc \<noteq> Mass \<or>
          (\<exists>ui. map_of ureg (measure item) = Some ui \<and> dimensionality ui = Mass)"
  then show "check_special_cases ureg item = Inr item"
    using check_special_cases_known [OF reg c uc] by auto
next
  assume "dimensionality uc = Mass \<and> map_of ureg (measure item) = None"
  then show "check_special_cases ureg item = Inl UndefinedUnitError"
    using check_special_cases_known [OF reg c uc] by simp
qed

theorem heuristic_applied_iff_witness:
  "pint_registry default_ureg \<and>
   cost flour_item = Some (Cost 2.19 5 ''pounds'') \<and>
   map_of default_ureg ''pounds'' = Some pound \<and> dimensionality pound = Mass \<and>
   map_of default_ureg (measure flour_item) = Some cup \<and> dimensionality cup \<noteq> Mass \<and>
   check_special_cases default_ureg flour_item =
     Inr (flour_item\<lparr>cost := Some (Cost 2.19 16.65 ''cups'')\<rparr>) \<and>
   cost butter_item = Some (Cost 4 2 ''pounds'') \<and>
   map_of default_ureg (measure butter_item) = Some pound \<and>
   check_special_cases default_ureg butter_item = Inr butter_item \<and>
   cost raisins_item = Some (Cost 4 1 ''liters'') \<and>
   map_of default_ureg ''liters'' = Some \<lparr>dimensionality = Volume, factor = 1\<rparr> \<and>
   check_special_cases default_ureg raisins_item = Inr raisins_item"
proof -
  let ?l = "\<lparr>dimensionality = Volume, factor = 1\<rparr>"
  have c1: "cost flour_item = Some (Cost 2.19 5 ''pounds'')"
    by (simp add: flour_item_def)
  have uc: "map_of default_ureg (cost.measure (Cost 2.19 5 ''pounds'')) = Some pound"
    by (simp add: default_ureg_def Cost_def)
  have ui1: "map_of default_ureg (measure flour_item) = Some cup"
    by (simp add: default_ureg_def flour_item_def Ingredient_def)
  have d: "dimensionality pound = Mass" "dimensionality cup \<noteq> Mass"
    by (simp_all add: pound_def cup_def)
  have cv: "convert_mass_to_volume default_ureg (Cost 2.19 5 ''pounds'')
              (conversion_rate (thing flour_item)) = Inr (Cost 2.19 16.65 ''cups'')"
    by code_simp
  have c2: "cost butter_item = Some (Cost 4 2 ''pounds'')"
    by (simp add: butter_item_def)
  have uc2: "map_of default_ureg (cost.measure (Cost 4 2 ''pounds'')) = Some pound"
    by (simp add: default_ureg_def Cost_def)
  have ui2: "map_of default_ureg (measure butter_item) = Some pound"
    by (simp add: default_ureg_def butter_item_def Ingredient_def)
  have c3: "cost raisins_item = Some (Cost 4 1 ''liters'')"
    by (simp add: raisins_item_def)
  have uc3: "map_of default_ureg (cost.measure (Cost 4 1 ''liters'')) = Some ?l"
    by (simp add: default_ureg_def Cost_def)
  have d3: "dimensionality ?l \<noteq> Mass" by simp
  from heuristic_applied_iff [OF default_ureg_pint c1 uc] ui1 d cv
  have r1: "check_special_cases default_ureg flour_item =
     Inr (flour_item\<lparr>cost := Some (Cost 2.19 16.65 ''cups'')\<rparr>)"
    by auto
  from heuristic_applied_iff [OF default_ureg_pint c2 uc2] ui2 d
  have r2: "check_special_cases default_ureg butter_item = Inr butter_item"
    by blast
  from heuristic_applied_iff [OF default_ureg_pint c3 uc3] d3
  have r3: "check_special_cases default_ureg raisins_item = Inr raisins_item"
    by blast
  from default_ureg_pint c1 c2 c3 uc uc3 ui1 ui2 d r1 r2 r3 show ?thesis
    by (simp add: Cost_def)
qed

subsection \<open>What one round of the loop leaves alone, and the loop on a concatenation\<close>

lemma check_special_cases_fields:
  assumes "check_special_cases ureg item = Inr item'"
  shows "price item' = price item \<and> thing item' = thing item \<and>
         measure item' = measure item \<and> ingredient.quantity item' = ingredient.quantity item"
  using assms
  by (auto simp: check_special_cases_def split: option.splits sum.splits if_splits)

lemma conversion_rate_flour: "conversion_rate ''flour'' = 3.33"
  by code_simp

lemma calculate_loop_append:
  "calculate_loop ureg (xs @ ys) =
     (case calculate_loop ureg xs of
        Inl e \<Rightarrow> Inl e
      | Inr (xs', out) \<Rightarrow>
          (case calculate_loop ureg ys of
             Inl e \<Rightarrow> Inl e
           | Inr (ys', out') \<Rightarrow> Inr (xs' @ ys', out @ out')))"
  by (induction xs) (auto split: sum.splits prod.splits)

lemma direct_conversion_skips_heuristic:
  assumes reg: "pint_registry ureg" and c: "cost item = Some c"
    and cv: "convert ureg (cost.quantity c) (cost.measure c) (measure item) = Inr b"
  shows "check_special_cases ureg item = Inr item"
proof -
  from cv obtain uc where uc: "map_of ureg (cost.measure c) = Some uc"
    by (auto simp: convert_def ureg_getitem_def ureg_getattr_def split: option.splits)
  from cv uc obtain ui where ui: "map_of ureg (measure item) = Some ui"
    by (auto simp: convert_def ureg_getitem_def ureg_getattr_def quantity_to_def
             split: option.splits)
  from cv have "dimensionality uc = dimensionality ui"
    using convert_known [OF uc ui, of "cost.quantity c"] by (simp split: if_splits)
  then show ?thesis
    using check_special_cases_known [OF reg c uc] ui by simp
qed

subsection \<open>Flour bought by the pound and used by the cup\<close>

text \<open>
  Claim C1. For three cups of flour whose cost is 2.19 dollars for 5 pounds,
  \<open>calculate_recipe_prices\<close> applies the density heuristic with the rate 3.33, so that
  the bulk of 5 pounds becomes 5 * 3.33 = 16.65 cups, and sets the price to
  3 / 16.65 * 2.19, where the used fraction 3 / 16.65 is about 0.1802 and the price is
  about 0.3945 dollars (each within one ten-thousandth).
\<close>

theorem flour_price:
  assumes reg: "pint_registry ureg"
  shows "calculate_recipe_prices ureg \<lparr>name = n, ingredients = [flour_item]\<rparr> =
           Inr (\<lparr>name = n,
                 ingredients = [flour_item\<lparr>cost := Some (Cost 2.19 (5 * 3.33) ''cups''),
                                          price := Some (3 / 16.65 * 2.19)\<rparr>]\<rparr>, []) \<and>
         (5 :: real) * 3.33 = 16.65 \<and>
         \<bar>(3 :: real) / 16.65 - 0.1802\<bar> < 0.0001 \<and>
         \<bar>(3 :: real) / 16.65 * 2.19 - 0.3945\<bar> < 0.0001"
proof -
  from reg obtain p where p: "map_of ureg ''pounds'' = Some p" "dimensionality p = Mass"
    by (rule registry_pounds)
  from reg obtain k where k: "map_of ureg ''cups'' = Some k" "dimensionality k = Volume"
    by (rule registry_cups)
  from reg p(1) have fp: "0 < factor p" by (rule registry_factor_pos)
  from reg k(1) have fk: "0 < factor k" by (rule registry_factor_pos)
  let ?c = "Cost 2.19 5 ''pounds''"
  let ?c' = "Cost 2.19 (5 * 3.33) ''cups''"
  let ?item = "flour_item\<lparr>cost := Some ?c'\<rparr>"
  have c: "cost flour_item = Some ?c" by (simp add: flour_item_def)
  have uc: "map_of ureg (cost.measure ?c) = Some p" using p by (simp add: Cost_def)
  have "convert ureg (cost.quantity ?c) (cost.measure ?c) ''pounds'' = Inr 5"
    using p fp by (simp add: convert_known Cost_def)
  then have cv: "convert_mass_to_volume ureg ?c (conversion_rate (thing flour_item)) = Inr ?c'"
    by (simp add: convert_mass_to_volume_convert flour_item_def Ingredient_def
          conversion_rate_flour Cost_def)
  have special: "check_special_cases ureg flour_item = Inr ?item"
    using check_special_cases_known [OF reg c uc] p k cv
    by (simp add: flour_item_def Ingredient_def)
  have c': "cost ?item = Some ?c'" by simp
  have "convert ureg (cost.quantity ?c') (cost.measure ?c') (measure ?item) = Inr 16.65"
    using k fk by (simp add: convert_known Cost_def flour_item_def Ingredient_def)
  then have "calculate_item ureg flour_item =
      Inr (?item\<lparr>price := Some (ingredient.quantity ?item / 16.65 * money ?c')\<rparr>, [])"
    using calculate_item_convert [OF special c'] by simp
  then have "calculate_item ureg flour_item =
      Inr (flour_item\<lparr>cost := Some ?c', price := Some (3 / 16.65 * 2.19)\<rparr>, [])"
    by (simp add: flour_item_def Ingredient_def Cost_def)
  then show ?thesis
    by (simp add: calculate_recipe_prices_def)
qed

theorem flour_price_witness:
  "pint_registry default_ureg \<and>
   calculate_recipe_prices default_ureg \<lparr>name = ''bread'', ingredients = [flour_item]\<rparr> =
     Inr (\<lparr>name = ''bread'',
           ingredients = [flour_item\<lparr>cost := Some (Cost 2.19 16.65 ''cups''),
                                    price := Some (73 / 185)\<rparr>]\<rparr>, [])"
  using flour_price [OF default_ureg_pint, of "''bread''"] default_ureg_pint
  by simp

subsection \<open>The price is the used fraction of the money\<close>

text \<open>
  A divisor that is zero raises \<open>ZeroDivisionError\<close>, which the loop does not catch:
  the run ends there.
\<close>

lemma zero_divisor_is_not_caught:
  assumes "check_special_cases ureg item0 = Inr item" and "cost item = Some c"
    and "convert ureg (cost.quantity c) (cost.measure c) (measure item) = Inr 0"
  shows "calculate_item ureg item0 = Inl ZeroDivisionError"
    and "calculate_recipe_prices ureg \<lparr>name = n, ingredients = item0 # rest\<rparr>
           = Inl ZeroDivisionError"
proof -
  show one: "calculate_item ureg item0 = Inl ZeroDivisionError"
    using calculate_item_convert [OF assms(1,2)] assms(3) by simp
  then show "calculate_recipe_prices ureg \<lparr>name = n, ingredients = item0 # rest\<rparr>
           = Inl ZeroDivisionError"
    by (simp add: calculate_recipe_prices_def)
qed

text \<open>
  Claim C2 says that the price is computed for every ingredient whose cost converts to
  the measure of the ingredient. A cost whose quantity is zero converts, to the bulk
  quantity zero, and the division by it raises: no price is computed and the run ends
  with \<open>ZeroDivisionError\<close>.
\<close>

theorem zero_bulk_counterexample:
  "check_special_cases default_ureg empty_bag = Inr empty_bag \<and>
   cost empty_bag = Some (Cost 1 0 ''pounds'') \<and>
   measure empty_bag = ''pounds'' \<and>
   convert default_ureg 0 ''pounds'' ''pounds'' = Inr 0 \<and>
   calculate_recipe_prices default_ureg \<lparr>name = ''brine'', ingredients = [empty_bag]\<rparr> =
     Inl ZeroDivisionError"
  by code_simp

text \<open>
  Claim C2, amended. For every ingredient whose cost, as the density heuristic leaves it,
  converts to the measure of the ingredient, giving a bulk quantity in that measure that
  is not zero, \<open>calculate_recipe_prices\<close> sets the price of that ingredient to its
  quantity divided by that bulk quantity, times the money of the cost: in a recipe of
  that ingredient alone, and in any recipe, whatever comes before and after it. (When
  the cost as given converts to the measure of the ingredient, the heuristic leaves it
  as it is: \<open>direct_conversion_skips_heuristic\<close>.) At a pound of flour bought as five
  pounds for 2.19 dollars the price is 2.19 * (1 / 5) = 0.438.
\<close>

theorem apportionment_price:
  assumes special: "check_special_cases ureg item0 = Inr item" and c: "cost item = Some c"
    and cv: "convert ureg (cost.quantity c) (cost.measure c) (measure item) =
               Inr bulk_in_usage_unit"
    and nz: "bulk_in_usage_unit \<noteq> 0"
  shows "calculate_recipe_prices ureg \<lparr>name = n, ingredients = [item0]\<rparr> =
           Inr (\<lparr>name = n,
                 ingredients =
                   [item\<lparr>price :=
                           Some (ingredient.quantity item / bulk_in_usage_unit * money c)\<rparr>]\<rparr>,
                []) \<and>
         calculate_recipe_prices ureg \<lparr>name = n, ingredients = before @ item0 # after\<rparr> =
           (case calculate_loop ureg before of
              Inl e \<Rightarrow> Inl e
            | Inr (before', out) \<Rightarrow>
                (case calculate_loop ureg after of
                   Inl e \<Rightarrow> Inl e
                 | Inr (after', out') \<Rightarrow>
                     Inr (\<lparr>name = n,
                           ingredients =
                             before' @
                             item\<lparr>price :=
                                    Some (ingredient.quantity item / bulk_in_usage_unit
                                          * money c)\<rparr> #
                             after'\<rparr>,
                          out @ out')))"
proof -
  let ?item = "item\<lparr>price := Some (ingredient.quantity item / bulk_in_usage_unit * money c)\<rparr>"
  have one: "calculate_item ureg item0 = Inr (?item, [])"
    using calculate_item_convert [OF special c] cv nz by simp
  then have single: "calculate_recipe_prices ureg \<lparr>name = n, ingredients = [item0]\<rparr> =
           Inr (\<lparr>name = n, ingredients = [?item]\<rparr>, [])"
    by (simp add: calculate_recipe_prices_def)
  from one have "calculate_loop ureg (item0 # after) =
      (case calculate_loop ureg after of
         Inl e \<Rightarrow> Inl e
       | Inr (after', out') \<Rightarrow> Inr (?item # after', out'))"
    by (simp split: sum.splits)
  then have "calculate_loop ureg (before @ item0 # after) =
      (case calculate_loop ureg before of
              Inl e \<Rightarrow> Inl e
            | Inr (before', out) \<Rightarrow>
                (case calculate_loop ureg after of
                   Inl e \<Rightarrow> Inl e
                 | Inr (after', out') \<Rightarrow> Inr (before' @ ?item # after', out @ out')))"
    by (simp add: calculate_loop_append split: sum.splits prod.splits)
  then have "calculate_recipe_prices ureg \<lparr>name = n, ingredients = before @ item0 # after\<rparr> =
           (case calculate_loop ureg before of
              Inl e \<Rightarrow> Inl e
            | Inr (before', out) \<Rightarrow>
                (case calculate_loop ureg after of
                   Inl e \<Rightarrow> Inl e
                 | Inr (after', out') \<Rightarrow>
                     Inr (\<lparr>name = n, ingredients = before' @ ?item # after'\<rparr>, out @ out')))"
    by (simp add: calculate_recipe_prices_def split: sum.splits prod.splits)
  with single show ?thesis by (rule conjI)
qed

theorem apportionment_price_witness:
  "check_special_cases default_ureg flour_by_weight = Inr flour_by_weight \<and>
   cost flour_by_weight = Some (Cost 2.19 5 ''pounds'') \<and>
   convert default_ureg 5 ''pounds'' ''pounds'' = Inr 5 \<and>
   (5 :: real) \<noteq> 0 \<and>
   calculate_recipe_prices default_ureg \<lparr>name = ''bread'', ingredients = [flour_by_weight]\<rparr> =
     Inr (\<lparr>name = ''bread'', ingredients = [flour_by_weight\<lparr>price := Some 0.438\<rparr>]\<rparr>, []) \<and>
   calculate_recipe_prices default_ureg
       \<lparr>name = ''bread'', ingredients = [flour_item, flour_by_weight, butter_item]\<rparr> =
     Inr (\<lparr>name = ''bread'',
           ingredients =
             [flour_item\<lparr>cost := Some (Cost 2.19 16.65 ''cups''), price := Some (73 / 185)\<rparr>,
              flour_by_weight\<lparr>price := Some 0.438\<rparr>,
              butter_item\<lparr>price := Some 2\<rparr>]\<rparr>, [])"
proof -
  have s: "check_special_cases default_ureg flour_by_weight = Inr flour_by_weight"
    by code_simp
  have c: "cost flour_by_weight = Some (Cost 2.19 5 ''pounds'')"
    by (simp add: flour_by_weight_def)
  have b: "convert default_ureg (cost.quantity (Cost 2.19 5 ''pounds''))
             (cost.measure (Cost 2.19 5 ''pounds'')) (measure flour_by_weight) = Inr 5"
    by code_simp
  have b': "convert default_ureg 5 ''pounds'' ''pounds'' = Inr 5"
    by code_simp
  have n: "(5 :: real) \<noteq> 0" by simp
  have before: "calculate_loop default_ureg [flour_item] =
      Inr ([flour_item\<lparr>cost := Some (Cost 2.19 16.65 ''cups''), price := Some (73 / 185)\<rparr>], [])"
    by code_simp
  have after: "calculate_loop default_ureg [butter_item] =
      Inr ([butter_item\<lparr>price := Some 2\<rparr>], [])"
    by code_simp
  have p: "flour_by_weight\<lparr>price := Some (ingredient.quantity flour_by_weight / 5
                                           * money (Cost 2.19 5 ''pounds''))\<rparr>
           = flour_by_weight\<lparr>price := Some 0.438\<rparr>"
    by (simp add: flour_by_weight_def Ingredient_def Cost_def)
  from apportionment_price [OF s c b n, of "''bread''" "[flour_item]" "[butter_item]"]
  have "calculate_recipe_prices default_ureg \<lparr>name = ''bread'', ingredients = [flour_by_weight]\<rparr> =
     Inr (\<lparr>name = ''bread'', ingredients = [flour_by_weight\<lparr>price := Some 0.438\<rparr>]\<rparr>, [])"
    and "calculate_recipe_prices default_ureg
       \<lparr>name = ''bread'', ingredients = [flour_item, flour_by_weight, butter_item]\<rparr> =
     Inr (\<lparr>name = ''bread'',
           ingredients =
             [flour_item\<lparr>cost := Some (Cost 2.19 16.65 ''cups''), price := Some (73 / 185)\<rparr>,
              flour_by_weight\<lparr>price := Some 0.438\<rparr>,
              butter_item\<lparr>price := Some 2\<rparr>]\<rparr>, [])"
    unfolding before after p by simp_all
  with s c b' n show ?thesis by simp
qed

subsection \<open>A conversion that fails is not fatal\<close>

text \<open>
  Claim C5. When the conversion of the cost of an ingredient (as the density heuristic
  leaves it) to the measure of the ingredient fails with \<open>DimensionalityError\<close>,
  the round prints the error and leaves the price of that ingredient as it was, that is
  unset for an ingredient that came from the constructor, and the loop goes on: in a
  recipe with that ingredient anywhere in it, the ingredients before and after it get
  exactly the prices they get in recipes of their own, and the run ends with an
  exception only if one of them raises one.
\<close>

theorem dimensionality_error_is_not_fatal:
  assumes special: "check_special_cases ureg item0 = Inr item" and c: "cost item = Some c"
    and cv: "convert ureg (cost.quantity c) (cost.measure c) (measure item) =
               Inl DimensionalityError"
  shows "price item = price item0 \<and>
         calculate_item ureg item0 =
           Inr (item, [DimensionalityErrorLine (cost.measure c) (measure item)]) \<and>
         calculate_recipe_prices ureg \<lparr>name = n, ingredients = before @ item0 # after\<rparr> =
           (case calculate_loop ureg before of
              Inl e \<Rightarrow> Inl e
            | Inr (before', out) \<Rightarrow>
                (case calculate_loop ureg after of
                   Inl e \<Rightarrow> Inl e
                 | Inr (after', out') \<Rightarrow>
                     Inr (\<lparr>name = n, ingredients = before' @ item # after'\<rparr>,
                          out @ DimensionalityErrorLine (cost.measure c) (measure item) # out')))"
proof -
  have p: "price item = price item0"
    using check_special_cases_fields [OF special] by simp
  have one: "calculate_item ureg item0 =
           Inr (item, [DimensionalityErrorLine (cost.measure c) (measure item)])"
    using calculate_item_convert [OF special c] cv by simp
  then have "calculate_loop ureg (item0 # after) =
      (case calculate_loop ureg after of
         Inl e \<Rightarrow> Inl e
       | Inr (after', out') \<Rightarrow>
           Inr (item # after', DimensionalityErrorLine (cost.measure c) (measure item) # out'))"
    by (simp split: sum.splits)
  then have "calculate_loop ureg (before @ item0 # after) =
      (case calculate_loop ureg before of
              Inl e \<Rightarrow> Inl e
            | Inr (before', out) \<Rightarrow>
                (case calculate_loop ureg after of
                   Inl e \<Rightarrow> Inl e
                 | Inr (after', out') \<Rightarrow>
                     Inr (before' @ item # after',
                          out @ DimensionalityErrorLine (cost.measure c) (measure item) # out')))"
    by (simp add: calculate_loop_append split: sum.splits prod.splits)
  then show ?thesis using p one
    by (simp add: calculate_recipe_prices_def split: sum.splits prod.splits)
qed

theorem dimensionality_error_is_not_fatal_witness:
  "check_special_cases default_ureg licorice_item =
     Inr (licorice_item\<lparr>cost := Some (Cost 3 2 ''cups'')\<rparr>) \<and>
   convert default_ureg 2 ''cups'' ''meter'' = Inl DimensionalityError \<and>
   price (licorice_item\<lparr>cost := Some (Cost 3 2 ''cups'')\<rparr>) = None \<and>
   calculate_recipe_prices default_ureg
       \<lparr>name = ''cake'', ingredients = [flour_by_weight, licorice_item, flour_item]\<rparr> =
     Inr (\<lparr>name = ''cake'',
           ingredients =
             [flour_by_weight\<lparr>price := Some 0.438\<rparr>,
              licorice_item\<lparr>cost := Some (Cost 3 2 ''cups'')\<rparr>,
              flour_item\<lparr>cost := Some (Cost 2.19 16.65 ''cups''), price := Some (73 / 185)\<rparr>]\<rparr>,
          [DimensionalityErrorLine ''cups'' ''meter''])"
proof -
  let ?item = "licorice_item\<lparr>cost := Some (Cost 3 2 ''cups'')\<rparr>"
  have special: "check_special_cases default_ureg licorice_item = Inr ?item"
    by code_simp
  have c: "cost ?item = Some (Cost 3 2 ''cups'')" by simp
  have cv: "convert default_ureg (cost.quantity (Cost 3 2 ''cups''))
              (cost.measure (Cost 3 2 ''cups'')) (measure ?item) = Inl DimensionalityError"
    by code_simp
  have before: "calculate_loop default_ureg [flour_by_weight] =
      Inr ([flour_by_weight\<lparr>price := Some 0.438\<rparr>], [])"
    by code_simp
  have after: "calculate_loop default_ureg [flour_item] =
      Inr ([flour_item\<lparr>cost := Some (Cost 2.19 16.65 ''cups''), price := Some (73 / 185)\<rparr>], [])"
    by code_simp
  have m: "cost.measure (Cost 3 2 ''cups'') = ''cups''" "measure ?item = ''meter''"
    by (simp_all add: Cost_def licorice_item_def Ingredient_def)
  have q: "cost.quantity (Cost 3 2 ''cups'') = 2"
    by (simp add: Cost_def)
  from dimensionality_error_is_not_fatal
         [OF special c cv, of "''cake''" "[flour_by_weight]" "[flour_item]"]
  have "price ?item = price licorice_item"
    and "calculate_recipe_prices default_ureg
       \<lparr>name = ''cake'', ingredients = [flour_by_weight, licorice_item, flour_item]\<rparr> =
     Inr (\<lparr>name = ''cake'',
           ingredients =
             [flour_by_weight\<lparr>price := Some 0.438\<rparr>, ?item,
              flour_item\<lparr>cost := Some (Cost 2.19 16.65 ''cups''), price := Some (73 / 185)\<rparr>]\<rparr>,
          [DimensionalityErrorLine ''cups'' ''meter''])"
    unfolding before after m by simp_all
  moreover have "price licorice_item = None"
    by (simp add: licorice_item_def Ingredient_def)
  ultimately show ?thesis using special cv unfolding m q by simp
qed

subsection \<open>The report\<close>

text \<open>
  The lines and the total of \<open>print_recipe_costs\<close>: an ingredient is listed with its
  price when the price is there and is not zero, and as without a price otherwise; the
  total is the sum of the prices that are there. On prices 0.44 and 1.20 and an
  ingredient without a price the total is 1.64 and the third ingredient is flagged.
\<close>

lemma print_loop_lines:
  "fst (print_loop items total') =
     map (\<lambda>i. if truthy (price i) then PriceLine (thing i) (the (price i))
               else NoPriceLine (thing i)) items"
  by (induction items arbitrary: total') (simp_all add: split_def)

lemma print_loop_total:
  "snd (print_loop items total') =
     total' + sum_list (map (\<lambda>i. case price i of None \<Rightarrow> 0 | Some p \<Rightarrow> p) items)"
  by (induction items arbitrary: total')
     (simp_all add: split_def truthy_def split: option.splits)

lemma print_recipe_costs_example:
  "print_recipe_costs
     \<lparr>name = ''cake'',
      ingredients = [priced ''flour'' 0.44, priced ''butter'' 1.20, Ingredient 2 ''cups'' ''milk'']\<rparr>
   = [CostsForRecipeLine ''cake'', PriceLine ''flour'' 0.44, PriceLine ''butter'' 1.20,
      NoPriceLine ''milk'', TotalLine 1.64]"
  by (simp add: print_recipe_costs_def priced_def Ingredient_def truthy_def)

text \<open>
  Claim C4 says that every ingredient with a price, a price of 0 included, is listed
  with that price and never reported as without a price. The test
  \<^verbatim>\<open>if ingredient.price:\<close> is false for the price 0.0: a cup of water that costs
  nothing gets the price 0 from \<open>calculate_recipe_prices\<close> and is then reported
  with \<^verbatim>\<open>Don't have price for water\<close>.
\<close>

theorem zero_price_reported_as_missing:
  "calculate_recipe_prices default_ureg \<lparr>name = ''tea'', ingredients = [water_item]\<rparr> =
     Inr (\<lparr>name = ''tea'', ingredients = [water_item\<lparr>price := Some 0\<rparr>]\<rparr>, []) \<and>
   print_recipe_costs \<lparr>name = ''tea'', ingredients = [water_item\<lparr>price := Some 0\<rparr>]\<rparr> =
     [CostsForRecipeLine ''tea'', NoPriceLine ''water'', TotalLine 0]"
proof -
  have "calculate_recipe_prices default_ureg \<lparr>name = ''tea'', ingredients = [water_item]\<rparr> =
     Inr (\<lparr>name = ''tea'', ingredients = [water_item\<lparr>price := Some 0\<rparr>]\<rparr>, [])"
    by code_simp
  moreover have
    "print_recipe_costs \<lparr>name = ''tea'', ingredients = [water_item\<lparr>price := Some 0\<rparr>]\<rparr> =
     [CostsForRecipeLine ''tea'', NoPriceLine ''water'', TotalLine 0]"
    by (simp add: print_recipe_costs_def water_item_def Ingredient_def truthy_def)
  ultimately show ?thesis by (rule conjI)
qed

subsection \<open>The conversion rate of an ingredient\<close>

text \<open>\<^verbatim>\<open>sub in s\<close> is the substring test, and the prefix test under it.\<close>

lemma startswith_iff: "startswith s p \<longleftrightarrow> (\<exists>suf. s = p @ suf)"
  by (induction s p rule: startswith.induct) auto

lemma str_in_iff: "str_in sub s \<longleftrightarrow> (\<exists>pre suf. s = pre @ sub @ suf)"
proof (induction s)
  case Nil
  show ?case by simp
next
  case (Cons c cs)
  have "(\<exists>pre suf. c # cs = pre @ sub @ suf) \<longleftrightarrow>
        (\<exists>suf. c # cs = sub @ suf) \<or> (\<exists>pre suf. cs = pre @ sub @ suf)"
  proof
    assume "\<exists>pre suf. c # cs = pre @ sub @ suf"
    then obtain pre suf where e: "c # cs = pre @ sub @ suf" by blast
    show "(\<exists>suf. c # cs = sub @ suf) \<or> (\<exists>pre suf. cs = pre @ sub @ suf)"
    proof (cases pre)
      case Nil
      with e show ?thesis by auto
    next
      case (Cons a pre')
      with e have "cs = pre' @ sub @ suf" by simp
      then show ?thesis by blast
    qed
  next
    assume "(\<exists>suf. c # cs = sub @ suf) \<or> (\<exists>pre suf. cs = pre @ sub @ suf)"
    then show "\<exists>pre suf. c # cs = pre @ sub @ suf"
    proof
      assume "\<exists>suf. c # cs = sub @ suf"
      then obtain suf where "c # cs = [] @ sub @ suf" by auto
      then show ?thesis by blast
    next
      assume "\<exists>pre suf. cs = pre @ sub @ suf"
      then obtain pre suf where "c # cs = (c # pre) @ sub @ suf" by auto
      then show ?thesis by blast
    qed
  qed
  with Cons show ?case by (simp add: startswith_iff)
qed

text \<open>
  Claim C7 says that every name whose normalized form contains \<open>brown sugar\<close> gets
  the rate 2.25. The rule for \<open>flour\<close> comes first: a name that contains both gets
  the rate of flour, 3.33.
\<close>

theorem brown_sugar_after_flour_counterexample:
  "str_in ''brown sugar'' (strip (lower ''Flour and brown sugar'')) \<and>
   conversion_rate ''Flour and brown sugar'' = 3.33 \<and>
   conversion_rate ''Flour and brown sugar'' \<noteq> 2.25"
  by code_simp

text \<open>
  Claim C7, amended. Every name whose normalized form (lower case, stripped) contains
  \<open>brown sugar\<close> and does not contain \<open>flour\<close> gets the rate 2.25, not the
  rate 2.0 of \<open>sugar\<close>: the rules are tried in the order flour, butter, brown sugar,
  sugar, cocoa, and the first that matches wins.
\<close>

theorem brown_sugar_rate:
  assumes "str_in ''brown sugar'' (strip (lower thing_name))"
    and "\<not> str_in ''flour'' (strip (lower thing_name))"
  shows "conversion_rate thing_name = 2.25 \<and> conversion_rate thing_name \<noteq> 2.0"
proof -
  have "\<not> str_in ''brown sugar'' ''butter''" by simp
  with assms(1) have "''butter'' \<noteq> strip (lower thing_name)" by metis
  with assms show ?thesis by (simp add: conversion_rate_def Let_def)
qed

theorem brown_sugar_rate_witness:
  "str_in ''brown sugar'' (strip (lower '' Dark Brown Sugar'')) \<and>
   \<not> str_in ''flour'' (strip (lower '' Dark Brown Sugar'')) \<and>
   conversion_rate '' Dark Brown Sugar'' = 2.25"
proof -
  have a: "str_in ''brown sugar'' (strip (lower '' Dark Brown Sugar''))" by code_simp
  have b: "\<not> str_in ''flour'' (strip (lower '' Dark Brown Sugar''))" by code_simp
  from brown_sugar_rate [OF a b] a b show ?thesis by simp
qed

text \<open>
  Claim C8. The rate does not depend on the case of the letters of the name or on
  whitespace around it, and the rules match by substring: \<open>Flour\<close>, \<open>flour\<close>
  between spaces and \<open>FLOUR\<close> all get 3.33; two names that are equal after
  \<open>lower\<close> and \<open>strip\<close> get the same rate; every name whose normalized form has
  \<open>flour\<close> anywhere in it gets 3.33; and the rate of every name is given by the table
  of rules, read on the normalized name, each rule but the one for \<open>butter\<close> a test
  for a substring.
\<close>

theorem conversion_rate_normalized:
  "conversion_rate ''Flour'' = 3.33 \<and>
   conversion_rate '' flour '' = 3.33 \<and>
   conversion_rate ''FLOUR'' = 3.33 \<and>
   (strip (lower a) = strip (lower b) \<longrightarrow> conversion_rate a = conversion_rate b) \<and>
   ((\<exists>pre suf. strip (lower a) = pre @ ''flour'' @ suf) \<longrightarrow> conversion_rate a = 3.33) \<and>
   conversion_rate a =
     (if \<exists>pre suf. strip (lower a) = pre @ ''flour'' @ suf then 3.33
      else if strip (lower a) = ''butter'' then 2.0
      else if \<exists>pre suf. strip (lower a) = pre @ ''brown sugar'' @ suf then 2.25
      else if \<exists>pre suf. strip (lower a) = pre @ ''sugar'' @ suf then 2.0
      else if \<exists>pre suf. strip (lower a) = pre @ ''cocoa'' @ suf then 3.55
      else 2.0)"
proof -
  have table: "conversion_rate a =
     (if \<exists>pre suf. strip (lower a) = pre @ ''flour'' @ suf then 3.33
      else if strip (lower a) = ''butter'' then 2.0
      else if \<exists>pre suf. strip (lower a) = pre @ ''brown sugar'' @ suf then 2.25
      else if \<exists>pre suf. strip (lower a) = pre @ ''sugar'' @ suf then 2.0
      else if \<exists>pre suf. strip (lower a) = pre @ ''cocoa'' @ suf then 3.55
      else 2.0)"
    unfolding conversion_rate_def Let_def str_in_iff by auto
  have flour: "(\<exists>pre suf. strip (lower a) = pre @ ''flour'' @ suf) \<longrightarrow> conversion_rate a = 3.33"
    unfolding conversion_rate_def Let_def str_in_iff by simp
  have same: "strip (lower a) = strip (lower b) \<longrightarrow> conversion_rate a = conversion_rate b"
    by (simp add: conversion_rate_def)
  have "conversion_rate ''Flour'' = 3.33" by code_simp
  moreover have "conversion_rate '' flour '' = 3.33" by code_simp
  moreover have "conversion_rate ''FLOUR'' = 3.33" by code_simp
  ultimately show ?thesis using same flour table by blast
qed

theorem conversion_rate_normalized_witness:
  "strip (lower ''  Cocoa Powder'') = strip (lower ''COCOA powder  '') \<and>
   conversion_rate ''  Cocoa Powder'' = conversion_rate ''COCOA powder  '' \<and>
   conversion_rate ''COCOA powder  '' = 3.55 \<and>
   strip (lower '' Bread Flour'') = ''bread '' @ ''flour'' @ '''' \<and>
   conversion_rate '' Bread Flour'' = 3.33"
proof -
  have n: "strip (lower ''  Cocoa Powder'') = strip (lower ''COCOA powder  '')"
    by code_simp
  have r: "conversion_rate ''COCOA powder  '' = 3.55" by code_simp
  have s: "strip (lower '' Bread Flour'') = ''bread '' @ ''flour'' @ ''''" by code_simp
  then have e: "\<exists>pre suf. strip (lower '' Bread Flour'') = pre @ ''flour'' @ suf"
    by blast
  from conversion_rate_normalized [of "''  Cocoa Powder''" "''COCOA powder  ''"] n
  have c: "conversion_rate ''  Cocoa Powder'' = conversion_rate ''COCOA powder  ''"
    by blast
  from conversion_rate_normalized [of "'' Bread Flour''" "'' Bread Flour''"] e
  have f: "conversion_rate '' Bread Flour'' = 3.33"
    by blast
  from n c r s f show ?thesis by simp
qed

end
